theory Spec2Isabelle
  imports Main "HOL-Library.Word"
begin

unbundle bit_operations_syntax

section \<open>The serial demo: \<^verbatim>\<open>src/serial_demo/main.cpp\<close>\<close>

text \<open>
  The program is one function, \<^verbatim>\<open>main\<close>: it opens a serial device, reads its line
  settings, rewrites them to raw 115200 8N1, commits them, and then writes an incrementing
  counter forever.  The model below follows it line by line.  Everything the program does
  to the outside world is an \<^emph>\<open>event\<close> in a trace; everything the outside world answers
  is a field of an environment record \<open>os\<close>.
\<close>

subsection \<open>Types and constants of the system headers\<close>

text \<open>
  \<^verbatim>\<open><termios.h>\<close> and \<^verbatim>\<open><fcntl.h>\<close> are not part of the repository.  The program names
  \<^verbatim>\<open>/dev/ttyUSB0\<close>, a Linux device, so the types and values are those of Linux
  (\<^verbatim>\<open>asm-generic/termbits.h\<close>, \<^verbatim>\<open>bits/termios-struct.h\<close>): \<^verbatim>\<open>tcflag_t\<close> and \<^verbatim>\<open>speed_t\<close>
  are \<^verbatim>\<open>unsigned int\<close>, \<^verbatim>\<open>cc_t\<close> is \<^verbatim>\<open>unsigned char\<close>, and \<^verbatim>\<open>c_cc\<close> has \<^verbatim>\<open>NCCS = 32\<close>
  entries.  The header writes the flag values in octal; they are given here in decimal with
  the octal form in the comment.
\<close>

type_synonym tcflag_t = "32 word"
type_synonym speed_t = "32 word"
type_synonym cc_t = "8 word"

record termios =
  c_iflag :: tcflag_t
  c_oflag :: tcflag_t
  c_cflag :: tcflag_t
  c_lflag :: tcflag_t
  c_line :: cc_t
  c_cc :: "cc_t list"
  c_ispeed :: speed_t
  c_ospeed :: speed_t

definition NCCS :: nat where "NCCS = 32"
definition VTIME :: nat where "VTIME = 5"
definition VMIN :: nat where "VMIN = 6"

text \<open>A \<^verbatim>\<open>struct termios\<close> is an array of exactly \<open>NCCS\<close> control characters.\<close>

definition wf_termios :: "termios \<Rightarrow> bool" where
  "wf_termios t \<longleftrightarrow> length (c_cc t) = NCCS"

text \<open>Input modes (\<open>c_iflag\<close>).\<close>

definition IGNBRK :: tcflag_t where "IGNBRK = 1"        \<comment> \<open>0000001\<close>
definition IXON :: tcflag_t where "IXON = 1024"         \<comment> \<open>0002000\<close>
definition IXANY :: tcflag_t where "IXANY = 2048"       \<comment> \<open>0004000\<close>
definition IXOFF :: tcflag_t where "IXOFF = 4096"       \<comment> \<open>0010000\<close>

text \<open>Control modes (\<open>c_cflag\<close>).  The baud rate is the \<open>CBAUD\<close> field of \<open>c_cflag\<close>.\<close>

definition CBAUD :: tcflag_t where "CBAUD = 4111"       \<comment> \<open>0010017\<close>
definition CBAUDEX :: tcflag_t where "CBAUDEX = 4096"   \<comment> \<open>0010000\<close>
definition CSIZE :: tcflag_t where "CSIZE = 48"         \<comment> \<open>0000060\<close>
definition CS8 :: tcflag_t where "CS8 = 48"             \<comment> \<open>0000060\<close>
definition CSTOPB :: tcflag_t where "CSTOPB = 64"       \<comment> \<open>0000100\<close>
definition CREAD :: tcflag_t where "CREAD = 128"        \<comment> \<open>0000200\<close>
definition PARENB :: tcflag_t where "PARENB = 256"      \<comment> \<open>0000400\<close>
definition PARODD :: tcflag_t where "PARODD = 512"      \<comment> \<open>0001000\<close>
definition CLOCAL :: tcflag_t where "CLOCAL = 2048"     \<comment> \<open>0004000\<close>
definition CRTSCTS :: tcflag_t where "CRTSCTS = 2147483648"  \<comment> \<open>020000000000\<close>

text \<open>Local modes (\<open>c_lflag\<close>).\<close>

definition ISIG :: tcflag_t where "ISIG = 1"            \<comment> \<open>0000001\<close>
definition ICANON :: tcflag_t where "ICANON = 2"        \<comment> \<open>0000002\<close>
definition ECHO :: tcflag_t where "ECHO = 8"            \<comment> \<open>0000010\<close>

text \<open>Speed codes; \<open>MAX_BAUD\<close> is glibc's \<^verbatim>\<open>__MAX_BAUD\<close>, the code \<^verbatim>\<open>B4000000\<close>.\<close>

definition B57600 :: speed_t where "B57600 = 4097"      \<comment> \<open>0010001\<close>
definition B115200 :: speed_t where "B115200 = 4098"    \<comment> \<open>0010002\<close>
definition MAX_BAUD :: speed_t where "MAX_BAUD = 4111"  \<comment> \<open>0010017\<close>

text \<open>The baud rate a speed code stands for (the codes the header defines up to 230400).\<close>

definition baud_rate :: "speed_t \<Rightarrow> nat option" where
  "baud_rate s = map_of
     [(0, 0), (1, 50), (2, 75), (3, 110), (4, 134), (5, 150), (6, 200), (7, 300),
      (8, 600), (9, 1200), (10, 1800), (11, 2400), (12, 4800), (13, 9600), (14, 19200),
      (15, 38400), (4097, 57600), (4098, 115200), (4099, 230400)] s"

text \<open>\<^verbatim>\<open><fcntl.h>\<close> and the \<^verbatim>\<open>tcsetattr\<close> action.\<close>

definition O_WRONLY :: "32 word" where "O_WRONLY = 1"   \<comment> \<open>01\<close>
definition O_NOCTTY :: "32 word" where "O_NOCTTY = 256" \<comment> \<open>0400\<close>
definition TCSANOW :: int where "TCSANOW = 0"

subsection \<open>The speed functions of the C library\<close>

text \<open>
  \<^verbatim>\<open>cfsetispeed\<close> and \<^verbatim>\<open>cfsetospeed\<close> are library functions, not code of the repository.
  They are modelled after glibc's \<^verbatim>\<open>sysdeps/unix/sysv/linux/speed.c\<close> (glibc up to 2.41):
  the speed code is stored in the \<open>CBAUD\<close> bits of \<open>c_cflag\<close>, which is where the kernel
  reads it, and mirrored in \<open>c_ispeed\<close>/\<open>c_ospeed\<close>.  An input speed of 0 means "same as
  output" and is remembered in an otherwise unused bit of \<open>c_iflag\<close>, \<open>IBAUD0\<close>.  Each
  function returns \<open>-1\<close> and leaves the structure alone when the code is not a speed.
\<close>

definition IBAUD0 :: tcflag_t where "IBAUD0 = 2147483648"  \<comment> \<open>020000000000\<close>

definition bad_speed :: "speed_t \<Rightarrow> bool" where
  "bad_speed speed \<longleftrightarrow> speed AND NOT CBAUD \<noteq> 0 \<and> (speed < B57600 \<or> speed > MAX_BAUD)"

definition cfgetospeed :: "termios \<Rightarrow> speed_t" where
  "cfgetospeed t = c_cflag t AND (CBAUD OR CBAUDEX)"

definition cfgetispeed :: "termios \<Rightarrow> speed_t" where
  "cfgetispeed t = (if c_iflag t AND IBAUD0 \<noteq> 0 then 0 else c_cflag t AND (CBAUD OR CBAUDEX))"

definition cfsetospeed :: "termios \<Rightarrow> speed_t \<Rightarrow> int \<times> termios" where
  "cfsetospeed t speed =
     (if bad_speed speed then (-1, t)
      else (0, t\<lparr>c_ospeed := speed,
                 c_cflag := (c_cflag t AND NOT (CBAUD OR CBAUDEX)) OR speed\<rparr>))"

definition cfsetispeed :: "termios \<Rightarrow> speed_t \<Rightarrow> int \<times> termios" where
  "cfsetispeed t speed =
     (if bad_speed speed then (-1, t)
      else if speed = 0 then (0, t\<lparr>c_ispeed := speed, c_iflag := c_iflag t OR IBAUD0\<rparr>)
      else (0, t\<lparr>c_ispeed := speed,
                 c_iflag := c_iflag t AND NOT IBAUD0,
                 c_cflag := (c_cflag t AND NOT (CBAUD OR CBAUDEX)) OR speed\<rparr>))"

subsection \<open>Lines 25 to 37: rewriting the line settings\<close>

text \<open>
  One \<open>let\<close> per statement, in the order of the source.  The results of the two speed
  calls are discarded, as the source discards them.  In C, \<^verbatim>\<open>~CSIZE\<close> is computed on
  \<^verbatim>\<open>int\<close> and converted to \<^verbatim>\<open>unsigned int\<close> by the \<^verbatim>\<open>&\<close>; that is the 32-bit complement.
\<close>

definition configure :: "termios \<Rightarrow> termios" where
  "configure tty0 =
     (let tty = snd (cfsetispeed tty0 B115200);
          tty = snd (cfsetospeed tty B115200);
          tty = tty\<lparr>c_cflag := (c_cflag tty AND NOT CSIZE) OR CS8\<rparr>;
          tty = tty\<lparr>c_iflag := c_iflag tty AND NOT IGNBRK\<rparr>;
          tty = tty\<lparr>c_lflag := 0\<rparr>;
          tty = tty\<lparr>c_oflag := 0\<rparr>;
          tty = tty\<lparr>c_cc := (c_cc tty)[VMIN := 0]\<rparr>;
          tty = tty\<lparr>c_cc := (c_cc tty)[VTIME := 5]\<rparr>;
          tty = tty\<lparr>c_iflag := c_iflag tty AND NOT (IXON OR IXOFF OR IXANY)\<rparr>;
          tty = tty\<lparr>c_cflag := c_cflag tty OR (CLOCAL OR CREAD)\<rparr>;
          tty = tty\<lparr>c_cflag := c_cflag tty AND NOT (PARENB OR PARODD)\<rparr>;
          tty = tty\<lparr>c_cflag := c_cflag tty AND NOT CSTOPB\<rparr>;
          tty = tty\<lparr>c_cflag := c_cflag tty AND NOT CRTSCTS\<rparr>
      in tty)"

subsection \<open>Lines 46 to 48: the counter and its text\<close>

text \<open>
  \<^verbatim>\<open>count\<close> is an \<^verbatim>\<open>int\<close>: 32 bits, read as two's complement by \<open>sint\<close>.  ISO C++ leaves
  the overflow of \<^verbatim>\<open>count++\<close> undefined; the model takes the behaviour of the machine, where
  the addition wraps around.

  \<^verbatim>\<open>std::to_string(int)\<close> is a library function: the decimal text that \<^verbatim>\<open>printf("%d")\<close>
  prints, a minus sign for a negative value and then the digits of the magnitude.
\<close>

definition digit_char :: "nat \<Rightarrow> char" where
  "digit_char d = ''0123456789'' ! d"

fun digits :: "nat \<Rightarrow> string" where
  "digits n = (if n < 10 then [digit_char n] else digits (n div 10) @ [digit_char (n mod 10)])"

declare digits.simps [simp del]

definition to_string :: "32 word \<Rightarrow> string" where
  "to_string v = (if sint v < 0 then CHR ''-'' # digits (nat (- sint v)) else digits (nat (sint v)))"

definition newline :: char where
  "newline = CHR 0x0A"

text \<open>Line 48: \<^verbatim>\<open>std::to_string(count) + "\n"\<close>.\<close>

definition message :: "32 word \<Rightarrow> string" where
  "message count = to_string count @ [newline]"

subsection \<open>The operating system and the trace of a run\<close>

text \<open>
  What the system calls answer is not decided by the program, so it is a parameter.  A call
  answers with its return value and the \<^verbatim>\<open>errno\<close> it leaves; \<^verbatim>\<open>tcgetattr\<close> also answers
  with the contents it stored in the structure.  \<^verbatim>\<open>write\<close> is called many times: its answer
  depends on the number of the call (0 for the first) as well as on its arguments.
\<close>

record os =
  os_open :: "string \<Rightarrow> 32 word \<Rightarrow> int \<times> nat"
  os_tcgetattr :: "int \<Rightarrow> int \<times> nat \<times> termios"
  os_tcsetattr :: "int \<Rightarrow> int \<Rightarrow> termios \<Rightarrow> int \<times> nat"
  os_write :: "nat \<Rightarrow> int \<Rightarrow> string \<Rightarrow> nat \<Rightarrow> int"

text \<open>
  Each event carries the arguments of the call and, where the call returns one, its result.
  \<open>Perror s e\<close> is \<^verbatim>\<open>std::perror(s)\<close> run while \<^verbatim>\<open>errno\<close> is \<open>e\<close>: it prints \<open>s\<close>, a colon
  and the system's description of error \<open>e\<close>.  \<open>Sleep_for us\<close> is a sleep of \<open>us\<close>
  microseconds.
\<close>

datatype event =
    Open string "32 word" int
  | Tcgetattr int int
  | Tcsetattr int int termios int
  | Perror string nat
  | Close int
  | Write int string nat int
  | Sleep_for nat

text \<open>
  How a run stands when the observation ends: the process has returned a status from
  \<^verbatim>\<open>main\<close>, or it is still inside the loop.
\<close>

datatype outcome = Exited int | Running

subsection \<open>Lines 45 to 51: the transmission loop\<close>

text \<open>
  \<^verbatim>\<open>while (true)\<close> has no exit, so the model takes the number \<open>n\<close> of iterations to
  observe and gives the events of the first \<open>n\<close> iterations; \<open>k\<close> counts the calls of
  \<^verbatim>\<open>write\<close> made so far.  The value that \<^verbatim>\<open>write\<close> returns is recorded in the event and
  used nowhere else, as in the source.
\<close>

definition interval :: nat where
  "interval = 100"

fun transmit :: "os \<Rightarrow> int \<Rightarrow> nat \<Rightarrow> nat \<Rightarrow> 32 word \<Rightarrow> event list" where
  "transmit sys fd k 0 count = []"
| "transmit sys fd k (Suc n) count =
     (let msg = message count;
          count' = count + 1;
          r = os_write sys k fd msg (length msg)
      in Write fd msg (length msg) r # Sleep_for interval # transmit sys fd (Suc k) n count')"

subsection \<open>Lines 10 to 55: \<^verbatim>\<open>main\<close>\<close>

text \<open>
  \<open>main sys n\<close> is the run of the program against the system \<open>sys\<close>, observed until it exits or
  has gone through the loop \<open>n\<close> times.  Lines 53 and 54 (\<^verbatim>\<open>close(fd); return 0;\<close>) follow a
  loop without exit and are never reached; no branch of the model leads to them.
\<close>

definition port :: string where
  "port = ''/dev/ttyUSB0''"

definition main :: "os \<Rightarrow> nat \<Rightarrow> event list \<times> outcome" where
  "main sys n =
     (let flags = O_WRONLY OR O_NOCTTY;
          (fd, e1) = os_open sys port flags
      in if fd < 0 then ([Open port flags fd, Perror ''open'' e1], Exited 1)
         else
           let (r2, e2, tty) = os_tcgetattr sys fd
           in if r2 \<noteq> 0
              then ([Open port flags fd, Tcgetattr fd r2, Perror ''tcgetattr'' e2, Close fd],
                    Exited 1)
              else
                let tty' = configure tty;
                    (r3, e3) = os_tcsetattr sys fd TCSANOW tty'
                in if r3 \<noteq> 0
                   then ([Open port flags fd, Tcgetattr fd r2, Tcsetattr fd TCSANOW tty' r3,
                          Perror ''tcsetattr'' e3, Close fd], Exited 1)
                   else ([Open port flags fd, Tcgetattr fd r2, Tcsetattr fd TCSANOW tty' r3]
                           @ transmit sys fd 0 n 0, Running))"

subsection \<open>Lines 47 to 51 again, statement by statement\<close>

text \<open>
  \<open>transmit\<close> gives the events of an iteration and hides the variables.  To see in which
  order the counter and the device are touched, the body of the loop is also modelled one
  statement at a time, on a state that holds the local variables: the line to execute next,
  \<^verbatim>\<open>count\<close>, \<^verbatim>\<open>msg\<close>, and the number of \<^verbatim>\<open>write\<close> calls made so far.

  Line 48 is one statement, \<^verbatim>\<open>std::string msg = std::to_string(count++) + "\n";\<close>: the
  operand of \<^verbatim>\<open>to_string\<close> is the value of \<^verbatim>\<open>count\<close> before the increment, and the increment
  is complete when the statement ends, before line 49 starts.  Line 49 is the \<^verbatim>\<open>write\<close>,
  line 50 the sleep, and from there the loop goes back to line 48.
\<close>

datatype line = Line48 | Line49 | Line50

record loop_state =
  pc :: line
  count_var :: "32 word"
  msg_var :: string
  writes_done :: nat

definition exec :: "os \<Rightarrow> int \<Rightarrow> loop_state \<Rightarrow> event list \<times> loop_state" where
  "exec sys fd s =
     (case pc s of
        Line48 \<Rightarrow>
          ([], s\<lparr>pc := Line49, count_var := count_var s + 1,
                 msg_var := to_string (count_var s) @ [newline]\<rparr>)
      | Line49 \<Rightarrow>
          ([Write fd (msg_var s) (length (msg_var s))
              (os_write sys (writes_done s) fd (msg_var s) (length (msg_var s)))],
           s\<lparr>pc := Line50, writes_done := Suc (writes_done s)\<rparr>)
      | Line50 \<Rightarrow> ([Sleep_for interval], s\<lparr>pc := Line48\<rparr>))"

text \<open>The events and the state after \<open>j\<close> statements.\<close>

fun run_loop :: "os \<Rightarrow> int \<Rightarrow> nat \<Rightarrow> loop_state \<Rightarrow> event list \<times> loop_state" where
  "run_loop sys fd 0 s = ([], s)"
| "run_loop sys fd (Suc j) s =
     (let (es, s') = exec sys fd s;
          (es', s'') = run_loop sys fd j s'
      in (es @ es', s''))"

text \<open>Line 46, \<^verbatim>\<open>int count = 0;\<close>, and the entry into the loop.\<close>

definition loop_entry :: loop_state where
  "loop_entry = \<lparr>pc = Line48, count_var = 0, msg_var = [], writes_done = 0\<rparr>"

definition events_after :: "os \<Rightarrow> int \<Rightarrow> nat \<Rightarrow> event list" where
  "events_after sys fd j = fst (run_loop sys fd j loop_entry)"

definition state_after :: "os \<Rightarrow> int \<Rightarrow> nat \<Rightarrow> loop_state" where
  "state_after sys fd j = snd (run_loop sys fd j loop_entry)"

subsection \<open>What the system answers in a run\<close>

text \<open>
  The three steps of the configuration phase, read off the answers of the system: the
  descriptor that \<^verbatim>\<open>open\<close> returns, the settings that \<^verbatim>\<open>tcgetattr\<close> stores (the baseline),
  and which of the steps, if any, is the first to fail.
\<close>

definition opened :: "os \<Rightarrow> int" where
  "opened sys = fst (os_open sys port (O_WRONLY OR O_NOCTTY))"

definition baseline :: "os \<Rightarrow> termios" where
  "baseline sys = snd (snd (os_tcgetattr sys (opened sys)))"

definition open_fails :: "os \<Rightarrow> bool" where
  "open_fails sys \<longleftrightarrow> opened sys < 0"

definition query_fails :: "os \<Rightarrow> bool" where
  "query_fails sys \<longleftrightarrow> \<not> open_fails sys \<and> fst (os_tcgetattr sys (opened sys)) \<noteq> 0"

definition apply_fails :: "os \<Rightarrow> bool" where
  "apply_fails sys \<longleftrightarrow> \<not> open_fails sys \<and> \<not> query_fails sys \<and>
     fst (os_tcsetattr sys (opened sys) TCSANOW (configure (baseline sys))) \<noteq> 0"

definition config_ok :: "os \<Rightarrow> bool" where
  "config_ok sys \<longleftrightarrow> \<not> open_fails sys \<and> \<not> query_fails sys \<and> \<not> apply_fails sys"

subsection \<open>Reading a trace\<close>

fun is_write :: "event \<Rightarrow> bool" where
  "is_write (Write fd buf len r) = True"
| "is_write e = False"

text \<open>
  The messages of a trace: for each \<^verbatim>\<open>write\<close>, the \<open>len\<close> bytes at \<open>buf\<close> that the program
  hands over, in the order of the calls.
\<close>

fun sent :: "event list \<Rightarrow> string list" where
  "sent [] = []"
| "sent (Write fd buf len r # es) = take len buf # sent es"
| "sent (e # es) = sent es"

text \<open>The settings that a successful \<^verbatim>\<open>tcsetattr\<close> of the trace committed, if there is one.\<close>

fun committed :: "event list \<Rightarrow> termios option" where
  "committed [] = None"
| "committed (Tcsetattr fd act t r # es) = (if r = 0 then Some t else committed es)"
| "committed (e # es) = committed es"

text \<open>The settings that the first \<^verbatim>\<open>tcsetattr\<close> of the trace was called with, accepted or not.\<close>

fun applied :: "event list \<Rightarrow> termios option" where
  "applied [] = None"
| "applied (Tcsetattr fd act t r # es) = Some t"
| "applied (e # es) = applied es"

text \<open>
  What a query of the line settings reports, for the settings the specification asks for:
  the speeds through \<^verbatim>\<open>cfgetispeed\<close> and \<^verbatim>\<open>cfgetospeed\<close>, the rest as flag bits.
\<close>

definition speed_115200 :: "termios \<Rightarrow> bool" where
  "speed_115200 t \<longleftrightarrow>
     baud_rate (cfgetispeed t) = Some 115200 \<and> baud_rate (cfgetospeed t) = Some 115200"

definition frame_8N1 :: "termios \<Rightarrow> bool" where
  "frame_8N1 t \<longleftrightarrow>
     c_cflag t AND CSIZE = CS8 \<and> c_cflag t AND PARENB = 0 \<and> c_cflag t AND CSTOPB = 0"

definition no_flow_control :: "termios \<Rightarrow> bool" where
  "no_flow_control t \<longleftrightarrow>
     c_iflag t AND (IXON OR IXOFF OR IXANY) = 0 \<and> c_cflag t AND CRTSCTS = 0"

definition raw_mode :: "termios \<Rightarrow> bool" where
  "raw_mode t \<longleftrightarrow> c_lflag t AND (ICANON OR ECHO OR ISIG) = 0"

text \<open>
  \<open>c_cc[VTIME]\<close> counts tenths of a second (\<^verbatim>\<open>termios(3)\<close>); the read timeout in
  milliseconds.
\<close>

definition read_timeout_ms :: "termios \<Rightarrow> nat" where
  "read_timeout_ms t = unat (c_cc t ! VTIME) * 100"

text \<open>
  The bits of \<open>c_cflag\<close> that lines 27 and 34 to 37 of the source name, and the bits of
  \<open>c_iflag\<close> that lines 28 and 33 name.
\<close>

definition cflag_named :: tcflag_t where
  "cflag_named = CSIZE OR CLOCAL OR CREAD OR PARENB OR PARODD OR CSTOPB OR CRTSCTS"

definition iflag_named :: tcflag_t where
  "iflag_named = IGNBRK OR IXON OR IXOFF OR IXANY"

text \<open>The descriptors that are open at the end of a trace: opened and not closed since.\<close>

fun track_handle :: "int list \<Rightarrow> event \<Rightarrow> int list" where
  "track_handle hs (Open p f fd) = (if 0 \<le> fd then fd # hs else hs)"
| "track_handle hs (Close fd) = removeAll fd hs"
| "track_handle hs e = hs"

definition open_handles :: "event list \<Rightarrow> int list" where
  "open_handles es = foldl track_handle [] es"

text \<open>
  A monitor for the order of the start-up: it follows the trace through the phases of the
  configuration, and \<open>writes_guarded\<close> accepts a trace when each \<^verbatim>\<open>write\<close> in it comes after
  a successful \<^verbatim>\<open>open\<close>, \<^verbatim>\<open>tcgetattr\<close> and \<^verbatim>\<open>tcsetattr\<close> of the descriptor it writes to.
\<close>

datatype phase = Unopened | Opened int | Queried int | Configured int

fun advance :: "phase \<Rightarrow> event \<Rightarrow> phase" where
  "advance Unopened (Open p f fd) = (if 0 \<le> fd then Opened fd else Unopened)"
| "advance (Opened fd) (Tcgetattr fd' r) = (if fd' = fd \<and> r = 0 then Queried fd else Opened fd)"
| "advance (Queried fd) (Tcsetattr fd' act t r) =
     (if fd' = fd \<and> r = 0 then Configured fd else Queried fd)"
| "advance ph (Close fd) = Unopened"
| "advance ph e = ph"

fun write_allowed :: "phase \<Rightarrow> event \<Rightarrow> bool" where
  "write_allowed (Configured fd) (Write fd' buf len r) = (fd' = fd)"
| "write_allowed ph (Write fd' buf len r) = False"
| "write_allowed ph e = True"

fun writes_guarded :: "phase \<Rightarrow> event list \<Rightarrow> bool" where
  "writes_guarded ph [] = True"
| "writes_guarded ph (e # es) = (write_allowed ph e \<and> writes_guarded (advance ph e) es)"

subsection \<open>Reading a message\<close>

text \<open>
  The receiver's side of the wire format, written from the specification: a message is a
  decimal numeral followed by a newline.  \<open>decimal_value\<close> is the number that a string of
  digits denotes; \<open>decode\<close> reads a whole message, with an optional minus sign.
\<close>

definition is_digit :: "char \<Rightarrow> bool" where
  "is_digit c \<longleftrightarrow> c \<in> set ''0123456789''"

definition digit_val :: "char \<Rightarrow> nat" where
  "digit_val c = of_char c - 48"

definition decimal_value :: "string \<Rightarrow> nat" where
  "decimal_value s = foldl (\<lambda>a c. 10 * a + digit_val c) 0 s"

definition decode_nat :: "string \<Rightarrow> nat option" where
  "decode_nat s = (if s \<noteq> [] \<and> list_all is_digit s then Some (decimal_value s) else None)"

definition decode :: "string \<Rightarrow> int option" where
  "decode m =
     (if m = [] \<or> last m \<noteq> newline then None
      else case butlast m of
             [] \<Rightarrow> None
           | c # ds \<Rightarrow> if c = CHR ''-'' then map_option (\<lambda>v. - int v) (decode_nat ds)
                       else map_option int (decode_nat (c # ds)))"

text \<open>
  \<open>canonical_decimal n s\<close>: the string \<open>s\<close> is the decimal numeral of \<open>n\<close>, digits only and
  no leading zero (the numeral of 0 is the single digit 0).
\<close>

definition canonical_decimal :: "nat \<Rightarrow> string \<Rightarrow> bool" where
  "canonical_decimal n s \<longleftrightarrow>
     s \<noteq> [] \<and> list_all is_digit s \<and> decimal_value s = n \<and> (hd s = CHR ''0'' \<longrightarrow> s = ''0'')"

text \<open>
  Two consecutive messages, the one at position \<open>i\<close> and the next, decode to \<open>a\<close> and then
  \<open>a + 1\<close>.
\<close>

definition consecutive :: "string list \<Rightarrow> nat \<Rightarrow> bool" where
  "consecutive ms i =
     (case (decode (ms ! i), decode (ms ! Suc i)) of
        (Some a, Some b) \<Rightarrow> b = a + 1
      | _ \<Rightarrow> False)"

subsection \<open>Two systems to run against\<close>

text \<open>
  A terminal as Linux hands it out: 9600 baud and cooked mode, \<open>c_cflag\<close> being
  \<^verbatim>\<open>B9600 | CS8 | CREAD | HUPCL\<close>, that is \<open>13 + 48 + 128 + 1024\<close>.  And a system on which every
  call succeeds and every \<^verbatim>\<open>write\<close> takes the whole message.  \<open>sys_fail\<close> makes chosen calls fail:
  \<open>sys_fail 1\<close> the \<^verbatim>\<open>open\<close> (no such file), \<open>sys_fail 2\<close> the \<^verbatim>\<open>tcgetattr\<close> (not a terminal),
  \<open>sys_fail 3\<close> the \<^verbatim>\<open>tcsetattr\<close> (invalid argument), any other number the \<^verbatim>\<open>write\<close>s
  (input/output error).
\<close>

definition cooked :: termios where
  "cooked = \<lparr>c_iflag = 1280, c_oflag = 5, c_cflag = 1213, c_lflag = 35387, c_line = 0,
             c_cc = [3, 28, 127, 21, 4, 0, 1, 0, 17, 19, 26, 0, 18, 15, 23, 22,
                     0, 0, 0, 0, 0, 0, 0, 0, 0, 0, 0, 0, 0, 0, 0, 0],
             c_ispeed = 13, c_ospeed = 13\<rparr>"

definition sys_ok :: os where
  "sys_ok = \<lparr>os_open = (\<lambda>p f. (3, 0)),
            os_tcgetattr = (\<lambda>fd. (0, 0, cooked)),
            os_tcsetattr = (\<lambda>fd act t. (0, 0)),
            os_write = (\<lambda>k fd buf len. int len)\<rparr>"

definition sys_fail :: "nat \<Rightarrow> os" where
  "sys_fail step =
     \<lparr>os_open = (\<lambda>p f. if step = 1 then (-1, 2) else (3, 0)),
      os_tcgetattr = (\<lambda>fd. if step = 2 then (-1, 25, cooked) else (0, 0, cooked)),
      os_tcsetattr = (\<lambda>fd act t. if step = 3 then (-1, 22) else (0, 0)),
      os_write = (\<lambda>k fd buf len. -1)\<rparr>"

section \<open>Auxiliary facts\<close>

subsection \<open>The bits of the flag constants\<close>

lemma bit_IGNBRK: "bit IGNBRK n \<longleftrightarrow> n = 0"
proof -
  have *: "IGNBRK = 2 ^ 0" by (simp add: IGNBRK_def)
  show ?thesis unfolding * bit_or_iff bit_exp_iff by auto
qed

lemma bit_IXON: "bit IXON n \<longleftrightarrow> n = 10"
proof -
  have *: "IXON = 2 ^ 10" by (simp add: IXON_def)
  show ?thesis unfolding * bit_or_iff bit_exp_iff by auto
qed

lemma bit_IXANY: "bit IXANY n \<longleftrightarrow> n = 11"
proof -
  have *: "IXANY = 2 ^ 11" by (simp add: IXANY_def)
  show ?thesis unfolding * bit_or_iff bit_exp_iff by auto
qed

lemma bit_IXOFF: "bit IXOFF n \<longleftrightarrow> n = 12"
proof -
  have *: "IXOFF = 2 ^ 12" by (simp add: IXOFF_def)
  show ?thesis unfolding * bit_or_iff bit_exp_iff by auto
qed

lemma bit_IBAUD0: "bit IBAUD0 n \<longleftrightarrow> n = 31"
proof -
  have *: "IBAUD0 = 2 ^ 31" by (simp add: IBAUD0_def)
  show ?thesis unfolding * bit_or_iff bit_exp_iff by auto
qed

lemma bit_CBAUD: "bit CBAUD n \<longleftrightarrow> n = 0 \<or> n = 1 \<or> n = 2 \<or> n = 3 \<or> n = 12"
proof -
  have *: "CBAUD = 2 ^ 0 OR 2 ^ 1 OR 2 ^ 2 OR 2 ^ 3 OR 2 ^ 12" by (simp add: CBAUD_def)
  show ?thesis unfolding * bit_or_iff bit_exp_iff by auto
qed

lemma bit_CBAUDEX: "bit CBAUDEX n \<longleftrightarrow> n = 12"
proof -
  have *: "CBAUDEX = 2 ^ 12" by (simp add: CBAUDEX_def)
  show ?thesis unfolding * bit_or_iff bit_exp_iff by auto
qed

lemma bit_CSIZE: "bit CSIZE n \<longleftrightarrow> n = 4 \<or> n = 5"
proof -
  have *: "CSIZE = 2 ^ 4 OR 2 ^ 5" by (simp add: CSIZE_def)
  show ?thesis unfolding * bit_or_iff bit_exp_iff by auto
qed

lemma bit_CS8: "bit CS8 n \<longleftrightarrow> n = 4 \<or> n = 5"
proof -
  have *: "CS8 = 2 ^ 4 OR 2 ^ 5" by (simp add: CS8_def)
  show ?thesis unfolding * bit_or_iff bit_exp_iff by auto
qed

lemma bit_CSTOPB: "bit CSTOPB n \<longleftrightarrow> n = 6"
proof -
  have *: "CSTOPB = 2 ^ 6" by (simp add: CSTOPB_def)
  show ?thesis unfolding * bit_or_iff bit_exp_iff by auto
qed

lemma bit_CREAD: "bit CREAD n \<longleftrightarrow> n = 7"
proof -
  have *: "CREAD = 2 ^ 7" by (simp add: CREAD_def)
  show ?thesis unfolding * bit_or_iff bit_exp_iff by auto
qed

lemma bit_PARENB: "bit PARENB n \<longleftrightarrow> n = 8"
proof -
  have *: "PARENB = 2 ^ 8" by (simp add: PARENB_def)
  show ?thesis unfolding * bit_or_iff bit_exp_iff by auto
qed

lemma bit_PARODD: "bit PARODD n \<longleftrightarrow> n = 9"
proof -
  have *: "PARODD = 2 ^ 9" by (simp add: PARODD_def)
  show ?thesis unfolding * bit_or_iff bit_exp_iff by auto
qed

lemma bit_CLOCAL: "bit CLOCAL n \<longleftrightarrow> n = 11"
proof -
  have *: "CLOCAL = 2 ^ 11" by (simp add: CLOCAL_def)
  show ?thesis unfolding * bit_or_iff bit_exp_iff by auto
qed

lemma bit_CRTSCTS: "bit CRTSCTS n \<longleftrightarrow> n = 31"
proof -
  have *: "CRTSCTS = 2 ^ 31" by (simp add: CRTSCTS_def)
  show ?thesis unfolding * bit_or_iff bit_exp_iff by auto
qed

lemma bit_ISIG: "bit ISIG n \<longleftrightarrow> n = 0"
proof -
  have *: "ISIG = 2 ^ 0" by (simp add: ISIG_def)
  show ?thesis unfolding * bit_or_iff bit_exp_iff by auto
qed

lemma bit_ICANON: "bit ICANON n \<longleftrightarrow> n = 1"
proof -
  have *: "ICANON = 2 ^ 1" by (simp add: ICANON_def)
  show ?thesis unfolding * bit_or_iff bit_exp_iff by auto
qed

lemma bit_ECHO: "bit ECHO n \<longleftrightarrow> n = 3"
proof -
  have *: "ECHO = 2 ^ 3" by (simp add: ECHO_def)
  show ?thesis unfolding * bit_or_iff bit_exp_iff by auto
qed

lemma bit_B115200: "bit B115200 n \<longleftrightarrow> n = 1 \<or> n = 12"
proof -
  have *: "B115200 = 2 ^ 1 OR 2 ^ 12" by (simp add: B115200_def)
  show ?thesis unfolding * bit_or_iff bit_exp_iff by auto
qed

lemmas bit_consts = bit_IGNBRK bit_IXON bit_IXANY bit_IXOFF bit_IBAUD0 bit_CBAUD bit_CBAUDEX bit_CSIZE bit_CS8 bit_CSTOPB bit_CREAD bit_PARENB bit_PARODD bit_CLOCAL bit_CRTSCTS bit_ISIG bit_ICANON bit_ECHO bit_B115200

lemma not_bad_B115200: "\<not> bad_speed B115200"
  by (simp add: bad_speed_def B115200_def CBAUD_def)

lemma B115200_nonzero: "B115200 \<noteq> 0"
  by (simp add: B115200_def)

lemma configure_fields:
  "c_cflag (configure b) =
     ((((((c_cflag b AND NOT (CBAUD OR CBAUDEX) OR B115200) AND NOT (CBAUD OR CBAUDEX) OR B115200)
          AND NOT CSIZE OR CS8) OR (CLOCAL OR CREAD)) AND NOT (PARENB OR PARODD)) AND NOT CSTOPB)
      AND NOT CRTSCTS"
  "c_iflag (configure b) = ((c_iflag b AND NOT IBAUD0) AND NOT IGNBRK) AND NOT (IXON OR IXOFF OR IXANY)"
  "c_lflag (configure b) = 0"
  "c_oflag (configure b) = 0"
  "c_cc (configure b) = (c_cc b)[VMIN := 0, VTIME := 5]"
  "c_line (configure b) = c_line b"
  "c_ispeed (configure b) = B115200"
  "c_ospeed (configure b) = B115200"
  by (simp_all add: configure_def cfsetispeed_def cfsetospeed_def not_bad_B115200 B115200_nonzero Let_def)

lemma bit_c_cflag_configure:
  "bit (c_cflag (configure b)) n \<longleftrightarrow>
     n \<in> {1, 4, 5, 7, 11, 12} \<or> (n \<notin> {0, 2, 3, 6, 8, 9, 31} \<and> bit (c_cflag b) n)"
  unfolding configure_fields by (auto simp: bit_simps bit_consts dest: bit_imp_le_length)

lemma bit_c_iflag_configure:
  "bit (c_iflag (configure b)) n \<longleftrightarrow> n \<notin> {0, 10, 11, 12, 31} \<and> bit (c_iflag b) n"
  unfolding configure_fields by (auto simp: bit_simps bit_consts dest: bit_imp_le_length)

lemma baud_bits_configure: "c_cflag (configure b) AND (CBAUD OR CBAUDEX) = B115200"
  by (rule bit_word_eqI) (auto simp: bit_simps bit_consts bit_c_cflag_configure)

lemma csize_configure: "c_cflag (configure b) AND CSIZE = CS8"
  by (rule bit_word_eqI) (auto simp: bit_simps bit_consts bit_c_cflag_configure)

subsection \<open>Decimal numerals\<close>

lemma digit_cases: "d < 10 \<Longrightarrow> d = 0 \<or> d = 1 \<or> d = 2 \<or> d = 3 \<or> d = 4 \<or> d = 5 \<or> d = 6 \<or> d = 7 \<or> d = 8 \<or> d = (9::nat)"
  by arith

lemma digit_char_props:
  assumes "d < 10"
  shows "is_digit (digit_char d)" and "digit_val (digit_char d) = d"
    and "digit_char d = CHR ''0'' \<longleftrightarrow> d = 0"
  using digit_cases [OF assms] by (auto simp: is_digit_def digit_val_def digit_char_def)

lemma is_digit_not_special: "is_digit c \<Longrightarrow> c \<noteq> newline \<and> c \<noteq> CHR ''-''"
  by (auto simp: is_digit_def newline_def)

lemma decimal_value_snoc: "decimal_value (s @ [c]) = 10 * decimal_value s + digit_val c"
  by (simp add: decimal_value_def)

lemma digits_nonempty: "digits n \<noteq> []"
  by (induction n rule: digits.induct) (subst digits.simps, simp)

lemma digits_all: "list_all is_digit (digits n)"
proof (induction n rule: digits.induct)
  case (1 n)
  show ?case
  proof (cases "n < 10")
    case True
    then show ?thesis by (subst digits.simps) (simp add: digit_char_props)
  next
    case False
    with 1 show ?thesis by (subst digits.simps) (simp add: digit_char_props)
  qed
qed

lemma digits_value: "decimal_value (digits n) = n"
proof (induction n rule: digits.induct)
  case (1 n)
  show ?case
  proof (cases "n < 10")
    case True
    then show ?thesis
      by (subst digits.simps) (simp add: decimal_value_def digit_char_props)
  next
    case False
    with 1 show ?thesis
      by (subst digits.simps) (simp add: decimal_value_snoc digit_char_props)
  qed
qed

lemma hd_digits_zero: "hd (digits n) = CHR ''0'' \<longleftrightarrow> n = 0"
proof (induction n rule: digits.induct)
  case (1 n)
  show ?case
  proof (cases "n < 10")
    case True
    then show ?thesis by (subst digits.simps) (simp add: digit_char_props)
  next
    case False
    with 1 show ?thesis
      by (subst digits.simps) (simp add: digits_nonempty)
  qed
qed

lemma digits_zero: "digits 0 = ''0''"
  by (simp add: digits.simps digit_char_def)

lemma digits_canonical: "canonical_decimal n (digits n)"
  by (auto simp: canonical_decimal_def digits_nonempty digits_all digits_value hd_digits_zero digits_zero)

lemma decode_nat_digits: "decode_nat (digits n) = Some n"
  by (simp add: decode_nat_def digits_nonempty digits_all digits_value)

lemma hd_digits_not_minus: "hd (digits n) \<noteq> CHR ''-''"
proof -
  have "is_digit (hd (digits n))"
    using digits_all [of n] digits_nonempty [of n] by (cases "digits n") simp_all
  then show ?thesis by (simp add: is_digit_not_special)
qed

lemma decode_message: "decode (message v) = Some (sint v)"
proof (cases "sint v < 0")
  case True
  then show ?thesis
    by (simp add: decode_def message_def to_string_def decode_nat_digits)
next
  case False
  obtain c ds where ds: "digits (nat (sint v)) = c # ds"
    using digits_nonempty [of "nat (sint v)"] by (cases "digits (nat (sint v))") auto
  with hd_digits_not_minus [of "nat (sint v)"] have "c \<noteq> CHR ''-''" by simp
  moreover from ds have "decode_nat (c # ds) = Some (nat (sint v))"
    using decode_nat_digits [of "nat (sint v)"] by simp
  ultimately show ?thesis using False ds
    by (simp add: decode_def message_def to_string_def)
qed



lemma sint_counter_small: "i < 2 ^ 31 \<Longrightarrow> sint (of_nat i :: 32 word) = int i"
  by (simp add: signed_of_nat signed_take_bit_int_eq_self)


subsection \<open>The loop\<close>

lemma length_transmit: "length (transmit sys fd k n c) = 2 * n"
  by (induction n arbitrary: k c) (simp_all add: Let_def)


lemma sent_transmit:
  "sent (transmit sys fd k n c) = map (\<lambda>i. message (c + of_nat i)) [0..<n]"
proof (induction n arbitrary: k c)
  case 0
  show ?case by simp
next
  case (Suc n)
  have "map (\<lambda>i. message (c + of_nat i)) [0..<Suc n]
      = message c # map (\<lambda>i. message (c + 1 + of_nat i)) [0..<n]"
    by (simp add: upt_conv_Cons map_Suc_upt [symmetric] add.assoc del: upt_Suc)
  with Suc show ?case by (simp add: Let_def)
qed

lemma nth_transmit:
  assumes "i < n"
  shows "transmit sys fd k n c ! (2 * i) =
           Write fd (message (c + of_nat i)) (length (message (c + of_nat i)))
             (os_write sys (k + i) fd (message (c + of_nat i)) (length (message (c + of_nat i))))"
    and "transmit sys fd k n c ! (2 * i + 1) = Sleep_for interval"
  using assms
proof (induction n arbitrary: k c i)
  case 0
  { case 1 then show ?case by simp }
  { case 2 then show ?case by simp }
next
  case (Suc n)
  { case 1
    show ?case
    proof (cases i)
      case 0
      then show ?thesis by (simp add: Let_def)
    next
      case (Suc j)
      with 1 have "j < n" by simp
      from Suc.IH(1) [OF this, of "Suc k" "c + 1"] Suc show ?thesis
        by (simp add: Let_def add.assoc)
    qed }
  { case 2
    show ?case
    proof (cases i)
      case 0
      then show ?thesis by (simp add: Let_def)
    next
      case (Suc j)
      with 2 have "j < n" by simp
      from Suc.IH(2) [OF this, of "Suc k" "c + 1"] Suc show ?thesis
        by (simp add: Let_def)
    qed }
qed


lemma writes_guarded_transmit: "writes_guarded (Configured fd) (transmit sys fd k n c)"
  by (induction n arbitrary: k c) (simp_all add: Let_def)


lemma filter_write_transmit: "length (filter is_write (transmit sys fd k n c)) = n"
  by (induction n arbitrary: k c) (simp_all add: Let_def)


lemma handles_transmit: "foldl track_handle hs (transmit sys fd k n c) = hs"
  by (induction n arbitrary: k c) (simp_all add: Let_def)


lemma committed_transmit: "committed (transmit sys fd k n c) = None"
  by (induction n arbitrary: k c) (simp_all add: Let_def)

subsection \<open>The four ways a run can go\<close>

lemma main_open_fails:
  "open_fails sys \<Longrightarrow>
   main sys n = ([Open port (O_WRONLY OR O_NOCTTY) (opened sys),
                  Perror ''open'' (snd (os_open sys port (O_WRONLY OR O_NOCTTY)))], Exited 1)"
  by (simp add: main_def open_fails_def opened_def Let_def case_prod_beta)

lemma main_query_fails:
  "query_fails sys \<Longrightarrow>
   main sys n = ([Open port (O_WRONLY OR O_NOCTTY) (opened sys),
                  Tcgetattr (opened sys) (fst (os_tcgetattr sys (opened sys))),
                  Perror ''tcgetattr'' (fst (snd (os_tcgetattr sys (opened sys)))),
                  Close (opened sys)], Exited 1)"
  by (simp add: main_def query_fails_def open_fails_def opened_def Let_def case_prod_beta)

lemma main_apply_fails:
  "apply_fails sys \<Longrightarrow>
   main sys n = ([Open port (O_WRONLY OR O_NOCTTY) (opened sys),
                  Tcgetattr (opened sys) 0,
                  Tcsetattr (opened sys) TCSANOW (configure (baseline sys))
                    (fst (os_tcsetattr sys (opened sys) TCSANOW (configure (baseline sys)))),
                  Perror ''tcsetattr''
                    (snd (os_tcsetattr sys (opened sys) TCSANOW (configure (baseline sys)))),
                  Close (opened sys)], Exited 1)"
  by (auto simp: main_def apply_fails_def query_fails_def open_fails_def opened_def baseline_def
        Let_def case_prod_beta)

lemma main_config_ok:
  "config_ok sys \<Longrightarrow>
   main sys n = ([Open port (O_WRONLY OR O_NOCTTY) (opened sys),
                  Tcgetattr (opened sys) 0,
                  Tcsetattr (opened sys) TCSANOW (configure (baseline sys)) 0]
                 @ transmit sys (opened sys) 0 n 0, Running)"
  by (auto simp: main_def config_ok_def apply_fails_def query_fails_def open_fails_def opened_def
        baseline_def Let_def case_prod_beta)

lemma config_cases:
  "open_fails sys \<or> query_fails sys \<or> apply_fails sys \<or> config_ok sys"
  by (auto simp: config_ok_def)

lemma sys_ok_config: "config_ok sys_ok" "opened sys_ok = 3" "baseline sys_ok = cooked"
  by (simp_all add: config_ok_def apply_fails_def query_fails_def open_fails_def opened_def
        baseline_def sys_ok_def)

lemma sys_fail_config:
  "open_fails (sys_fail 1)" "query_fails (sys_fail 2)" "apply_fails (sys_fail 3)"
  "config_ok (sys_fail 4)"
  by (simp_all add: config_ok_def apply_fails_def query_fails_def open_fails_def opened_def
        baseline_def sys_fail_def)

subsection \<open>The messages of a run\<close>


lemma sent_main:
  "config_ok sys \<Longrightarrow> sent (fst (main sys n)) = map (\<lambda>i. message (of_nat i)) [0..<n]"
  by (simp add: main_config_ok sent_transmit)

lemma length_sent_main: "config_ok sys \<Longrightarrow> length (sent (fst (main sys n))) = n"
  by (simp add: sent_main)

lemma nth_sent_main:
  "config_ok sys \<Longrightarrow> i < n \<Longrightarrow> sent (fst (main sys n)) ! i = message (of_nat i)"
  by (simp add: sent_main)

lemma take_sent_main:
  "config_ok sys \<Longrightarrow> k \<le> n \<Longrightarrow> take k (sent (fst (main sys n))) = map (\<lambda>i. message (of_nat i)) [0..<k]"
  by (simp add: sent_main take_map min_def)

lemma first_three:
  "map (\<lambda>i. message (of_nat i)) [0..<3] = [''0\<newline>'', ''1\<newline>'', ''2\<newline>'']"
proof -
  have "[0..<3] = [0, Suc 0, Suc (Suc 0)]" by (simp add: numeral_3_eq_3)
  then show ?thesis
    by (simp add: message_def to_string_def digits.simps digit_char_def newline_def)
qed

lemma decode_nth_small:
  "config_ok sys \<Longrightarrow> i < n \<Longrightarrow> i < 2 ^ 31 \<Longrightarrow> decode (sent (fst (main sys n)) ! i) = Some (int i)"
  by (simp add: nth_sent_main decode_message sint_counter_small)

lemma consecutive_small:
  assumes "config_ok sys" "Suc i < n" "Suc i < 2 ^ 31"
  shows "consecutive (sent (fst (main sys n))) i"
proof -
  from assms have "decode (sent (fst (main sys n)) ! i) = Some (int i)"
    by (intro decode_nth_small) simp_all
  moreover from assms have "decode (sent (fst (main sys n)) ! Suc i) = Some (int (Suc i))"
    by (intro decode_nth_small) simp_all
  ultimately show ?thesis by (simp add: consecutive_def)
qed

lemma canonical_butlast_message:
  "0 \<le> sint v \<Longrightarrow> canonical_decimal (nat (sint v)) (butlast (message v))"
  by (simp add: message_def to_string_def digits_canonical)



subsection \<open>Runs and their traces\<close>

lemma not_config_ok: "\<not> config_ok sys \<longleftrightarrow> open_fails sys \<or> query_fails sys \<or> apply_fails sys"
  by (auto simp: config_ok_def)

lemma writes_guarded_main: "writes_guarded Unopened (fst (main sys n))"
proof -
  consider "open_fails sys" | "query_fails sys" | "apply_fails sys" | "config_ok sys"
    using config_cases by blast
  then show ?thesis
  proof cases
    case 1 then show ?thesis by (simp add: main_open_fails)
  next
    case 2 then show ?thesis by (simp add: main_query_fails)
  next
    case 3 then show ?thesis by (simp add: main_apply_fails)
  next
    case 4
    then have "0 \<le> opened sys" by (simp add: config_ok_def open_fails_def)
    with 4 show ?thesis by (simp add: main_config_ok writes_guarded_transmit)
  qed
qed

lemma failed_run:
  assumes "\<not> config_ok sys"
  shows "filter is_write (fst (main sys n)) = []" and "snd (main sys n) = Exited 1"
  using assms [unfolded not_config_ok]
  by (auto simp: main_open_fails main_query_fails main_apply_fails)

lemma committed_main:
  "config_ok sys \<Longrightarrow> committed (fst (main sys n)) = Some (configure (baseline sys))"
  by (simp add: main_config_ok)

lemma applied_main:
  assumes "\<not> open_fails sys" "\<not> query_fails sys"
  shows "applied (fst (main sys n)) = Some (configure (baseline sys))"
proof (cases "apply_fails sys")
  case True
  then show ?thesis by (simp add: main_apply_fails)
next
  case False
  with assms have "config_ok sys" by (simp add: config_ok_def)
  then show ?thesis by (simp add: main_config_ok)
qed

lemma opened_nonneg: "query_fails sys \<or> apply_fails sys \<Longrightarrow> 0 \<le> opened sys"
  by (auto simp: query_fails_def apply_fails_def open_fails_def)

lemma handles_exited: "snd (main sys n) = Exited s \<Longrightarrow> open_handles (fst (main sys n)) = []"
proof -
  assume e: "snd (main sys n) = Exited s"
  consider "open_fails sys" | "query_fails sys" | "apply_fails sys" | "config_ok sys"
    using config_cases by blast
  then show ?thesis
  proof cases
    case 1 then show ?thesis by (simp add: main_open_fails open_handles_def open_fails_def)
  next
    case 2 then show ?thesis
      using opened_nonneg [of sys] by (simp add: main_query_fails open_handles_def)
  next
    case 3 then show ?thesis
      using opened_nonneg [of sys] by (simp add: main_apply_fails open_handles_def)
  next
    case 4 with e show ?thesis by (simp add: main_config_ok)
  qed
qed

lemma config_ok_write_irrelevant: "config_ok (sys\<lparr>os_write := w\<rparr>) = config_ok sys"
  by (simp add: config_ok_def apply_fails_def query_fails_def open_fails_def opened_def
        baseline_def)

subsection \<open>The configured settings\<close>

lemma iflag_cleared: "c_iflag (configure b) AND (IXON OR IXOFF OR IXANY) = 0"
  by (rule bit_word_eqI) (auto simp: bit_simps bit_consts bit_c_iflag_configure)

lemma ibaud0_cleared: "c_iflag (configure b) AND IBAUD0 = 0"
  by (rule bit_word_eqI) (auto simp: bit_simps bit_consts bit_c_iflag_configure)

lemma cflag_cleared:
  "c_cflag (configure b) AND PARENB = 0" "c_cflag (configure b) AND CSTOPB = 0"
  "c_cflag (configure b) AND CRTSCTS = 0"
  by (rule bit_word_eqI, auto simp: bit_simps bit_consts bit_c_cflag_configure)+

lemma baud_rate_B115200: "baud_rate B115200 = Some 115200"
  by (simp add: baud_rate_def B115200_def)

lemma line_settings_configure:
  "speed_115200 (configure b)" "frame_8N1 (configure b)" "no_flow_control (configure b)"
  "raw_mode (configure b)"
  by (simp_all add: speed_115200_def frame_8N1_def no_flow_control_def raw_mode_def
        cfgetispeed_def cfgetospeed_def ibaud0_cleared baud_bits_configure baud_rate_B115200
        csize_configure cflag_cleared iflag_cleared configure_fields(3))

lemma cflag_frame_full:
  "c_cflag (configure b) AND NOT (CBAUD OR cflag_named) = c_cflag b AND NOT (CBAUD OR cflag_named)"
  unfolding cflag_named_def
  by (rule bit_word_eqI) (auto simp: bit_simps bit_consts bit_c_cflag_configure)

lemma iflag_frame_full:
  "c_iflag (configure b) = c_iflag b AND NOT (IBAUD0 OR iflag_named)"
  unfolding iflag_named_def
  by (rule bit_word_eqI) (auto simp: bit_simps bit_consts bit_c_iflag_configure)

subsection \<open>The loop, statement by statement\<close>

lemma run_loop_add:
  "run_loop sys fd (a + b) s =
     (fst (run_loop sys fd a s) @ fst (run_loop sys fd b (snd (run_loop sys fd a s))),
      snd (run_loop sys fd b (snd (run_loop sys fd a s))))"
  by (induction a arbitrary: s) (simp_all add: Let_def case_prod_beta)

lemma run_loop_2:
  "pc s = Line48 \<Longrightarrow>
     run_loop sys fd 2 s =
       ([Write fd (message (count_var s)) (length (message (count_var s)))
           (os_write sys (writes_done s) fd (message (count_var s))
              (length (message (count_var s))))],
        s\<lparr>pc := Line50, count_var := count_var s + 1, msg_var := message (count_var s),
          writes_done := Suc (writes_done s)\<rparr>)"
  by (simp add: numeral_2_eq_2 exec_def message_def)

lemma run_loop_3:
  "pc s = Line48 \<Longrightarrow>
     run_loop sys fd 3 s =
       ([Write fd (message (count_var s)) (length (message (count_var s)))
           (os_write sys (writes_done s) fd (message (count_var s))
              (length (message (count_var s)))),
         Sleep_for interval],
        s\<lparr>pc := Line48, count_var := count_var s + 1, msg_var := message (count_var s),
          writes_done := Suc (writes_done s)\<rparr>)"
  by (simp add: numeral_3_eq_3 exec_def message_def)

lemma run_loop_iterations:
  "pc s = Line48 \<Longrightarrow>
     fst (run_loop sys fd (3 * n) s) = transmit sys fd (writes_done s) n (count_var s) \<and>
     pc (snd (run_loop sys fd (3 * n) s)) = Line48 \<and>
     count_var (snd (run_loop sys fd (3 * n) s)) = count_var s + of_nat n \<and>
     writes_done (snd (run_loop sys fd (3 * n) s)) = writes_done s + n"
proof (induction n arbitrary: s)
  case 0
  then show ?case by simp
next
  case (Suc n)
  have "3 * Suc n = 3 + 3 * n" by simp
  then have r: "run_loop sys fd (3 * Suc n) s =
     (fst (run_loop sys fd 3 s) @ fst (run_loop sys fd (3 * n) (snd (run_loop sys fd 3 s))),
      snd (run_loop sys fd (3 * n) (snd (run_loop sys fd 3 s))))"
    by (simp only: run_loop_add)
  define s' where "s' = snd (run_loop sys fd 3 s)"
  from Suc.prems have s': "pc s' = Line48" "count_var s' = count_var s + 1"
    "writes_done s' = Suc (writes_done s)"
    by (simp_all add: s'_def run_loop_3)
  from Suc.IH [OF s'(1)] s' Suc.prems show ?case
    unfolding r s'_def [symmetric]
    by (simp add: run_loop_3 Let_def add.assoc)
qed

lemma loop_entry_fields:
  "pc loop_entry = Line48" "count_var loop_entry = 0" "writes_done loop_entry = 0"
  by (simp_all add: loop_entry_def)

lemma at_iteration:
  "events_after sys fd (3 * i) = transmit sys fd 0 i 0"
  "pc (state_after sys fd (3 * i)) = Line48"
  "count_var (state_after sys fd (3 * i)) = of_nat i"
  "writes_done (state_after sys fd (3 * i)) = i"
  using run_loop_iterations [of loop_entry sys fd i]
  by (simp_all add: events_after_def state_after_def loop_entry_fields)

lemma within_iteration:
  fixes sys fd i
  defines "s \<equiv> state_after sys fd (3 * i)"
  shows "run_loop sys fd (3 * i + 1) loop_entry =
           (events_after sys fd (3 * i),
            s\<lparr>pc := Line49, count_var := of_nat i + 1, msg_var := message (of_nat i)\<rparr>)"
    and "run_loop sys fd (3 * i + 2) loop_entry =
           (events_after sys fd (3 * i) @
              [Write fd (message (of_nat i)) (length (message (of_nat i)))
                 (os_write sys i fd (message (of_nat i)) (length (message (of_nat i))))],
            s\<lparr>pc := Line50, count_var := of_nat i + 1, msg_var := message (of_nat i),
              writes_done := Suc i\<rparr>)"
    and "run_loop sys fd (3 * i + 3) loop_entry =
           (events_after sys fd (3 * i) @
              [Write fd (message (of_nat i)) (length (message (of_nat i)))
                 (os_write sys i fd (message (of_nat i)) (length (message (of_nat i)))),
               Sleep_for interval],
            s\<lparr>pc := Line48, count_var := of_nat i + 1, msg_var := message (of_nat i),
              writes_done := Suc i\<rparr>)"
  using at_iteration [of sys fd i]
  by (simp_all only: run_loop_add) 
     (simp_all add: s_def events_after_def state_after_def exec_def message_def run_loop_2
        run_loop_3)

lemma iteration_steps:
  "events_after sys fd (3 * i + 1) = events_after sys fd (3 * i)"
  "pc (state_after sys fd (3 * i + 1)) = Line49"
  "count_var (state_after sys fd (3 * i + 1)) = of_nat i + 1"
  "msg_var (state_after sys fd (3 * i + 1)) = message (of_nat i)"
  "events_after sys fd (3 * i + 2) =
     events_after sys fd (3 * i + 1) @
       [Write fd (message (of_nat i)) (length (message (of_nat i)))
          (os_write sys i fd (message (of_nat i)) (length (message (of_nat i))))]"
  "count_var (state_after sys fd (3 * i + 2)) = of_nat i + 1"
  "events_after sys fd (3 * i + 3) = events_after sys fd (3 * i + 2) @ [Sleep_for interval]"
  "count_var (state_after sys fd (3 * i + 3)) = of_nat i + 1"
  unfolding events_after_def state_after_def within_iteration
  by (simp_all add: events_after_def)

section \<open>The claims\<close>

subsection \<open>The messages count up\<close>

text \<open>
  \<^bold>\<open>Claim C1\<close>, as amended.  In every run in which the configuration phase succeeds, the
  first \<open>2\<^sup>3\<^sup>1\<close> messages handed to \<^verbatim>\<open>write\<close> decode to 0, 1, 2, \<dots> in order: after \<open>n\<close>
  iterations there are \<open>n\<close> messages, the first three are \<^verbatim>\<open>"0\n"\<close>, \<^verbatim>\<open>"1\n"\<close>, \<^verbatim>\<open>"2\n"\<close>, the
  message at position \<open>i < 2\<^sup>3\<^sup>1\<close> decodes to \<open>i\<close>, and two consecutive messages at positions
  below \<open>2\<^sup>3\<^sup>1\<close> decode to \<open>a\<close> and then \<open>a + 1\<close>.
\<close>

theorem messages_count_up:
  "config_ok sys \<Longrightarrow>
     length (sent (fst (main sys n))) = n \<and>
     (3 \<le> n \<longrightarrow> take 3 (sent (fst (main sys n))) = [''0\<newline>'', ''1\<newline>'', ''2\<newline>'']) \<and>
     (\<forall>i<n. i < 2 ^ 31 \<longrightarrow> decode (sent (fst (main sys n)) ! i) = Some (int i)) \<and>
     (\<forall>i. Suc i < n \<and> Suc i < 2 ^ 31 \<longrightarrow> consecutive (sent (fst (main sys n))) i)"
  by (simp add: length_sent_main take_sent_main first_three decode_nth_small consecutive_small)

text \<open>A run of three iterations on a system where every call succeeds.\<close>

theorem messages_count_up_witness:
  "config_ok sys_ok \<and>
   sent (fst (main sys_ok 3)) = [''0\<newline>'', ''1\<newline>'', ''2\<newline>''] \<and>
   decode (sent (fst (main sys_ok 3)) ! 2) = Some 2 \<and>
   consecutive (sent (fst (main sys_ok 3))) 1"
proof -
  have ok: "config_ok sys_ok" by (rule sys_ok_config)
  note t = messages_count_up [OF ok, of 3]
  from t have "take 3 (sent (fst (main sys_ok 3))) = [''0\<newline>'', ''1\<newline>'', ''2\<newline>'']"
    and len: "length (sent (fst (main sys_ok 3))) = 3" by simp_all
  then have "sent (fst (main sys_ok 3)) = [''0\<newline>'', ''1\<newline>'', ''2\<newline>'']" by simp
  moreover from t have "decode (sent (fst (main sys_ok 3)) ! 2) = Some (int 2)" by simp
  moreover from t have "consecutive (sent (fst (main sys_ok 3))) 1" by simp
  ultimately show ?thesis using ok by simp
qed

text \<open>
  The claim as it was stated, for any two consecutive messages, fails where the 32-bit counter
  wraps: the message at position 2147483647 decodes to 2147483647 and the next one to
  \<open>-2147483648\<close>.
\<close>

theorem messages_wrap_counterexample:
  "decode (sent (fst (main sys_ok 2147483649)) ! 2147483647) = Some 2147483647 \<and>
   decode (sent (fst (main sys_ok 2147483649)) ! 2147483648) = Some (- 2147483648) \<and>
   \<not> consecutive (sent (fst (main sys_ok 2147483649))) 2147483647"
proof -
  have ok: "config_ok sys_ok" by (rule sys_ok_config)
  have a: "sent (fst (main sys_ok 2147483649)) ! 2147483647 = message 2147483647"
    using nth_sent_main [OF ok, of 2147483647 2147483649] by simp
  have b: "sent (fst (main sys_ok 2147483649)) ! 2147483648 = message 2147483648"
    using nth_sent_main [OF ok, of 2147483648 2147483649] by simp
  show ?thesis by (simp add: consecutive_def a b decode_message)
qed

subsection \<open>The format of a message\<close>

text \<open>
  \<^bold>\<open>Claim C2\<close>.  For every counter value \<open>count\<close> that is not negative, the message is the
  decimal numeral of the value, digits only and without a leading zero, followed by one
  newline: the newline is the last byte and the only newline, and an iteration of the loop
  that starts with the counter at \<open>count\<close> hands exactly this message to \<^verbatim>\<open>write\<close>.
\<close>

theorem message_format:
  "0 \<le> sint count \<Longrightarrow>
     message count = butlast (message count) @ [newline] \<and>
     canonical_decimal (nat (sint count)) (butlast (message count)) \<and>
     count_list (message count) newline = 1 \<and>
     sent (transmit sys fd k 1 count) = [message count]"
proof -
  assume "0 \<le> sint count"
  then have m: "message count = digits (nat (sint count)) @ [newline]"
    by (simp add: message_def to_string_def)
  have "newline \<notin> set (digits (nat (sint count)))"
    using digits_all [of "nat (sint count)"] is_digit_not_special
    by (auto simp: list_all_iff)
  then have "count_list (digits (nat (sint count))) newline = 0"
    by (simp add: count_list_0_iff)
  with m show ?thesis
    by (simp add: digits_canonical Let_def)
qed

text \<open>The counter values 1205 and 0.\<close>

theorem message_format_witness:
  "0 \<le> sint (1205 :: 32 word) \<and> message 1205 = ''1205\<newline>'' \<and>
   canonical_decimal 1205 ''1205'' \<and> count_list ''1205\<newline>'' newline = 1 \<and>
   0 \<le> sint (0 :: 32 word) \<and> message 0 = ''0\<newline>'' \<and> canonical_decimal 0 ''0'' \<and>
   \<not> canonical_decimal 5 ''05''"
proof -
  have h: "0 \<le> sint (1205 :: 32 word)" "0 \<le> sint (0 :: 32 word)" by simp_all
  have m: "message 1205 = ''1205\<newline>''" "message 0 = ''0\<newline>''"
    by (simp_all add: message_def to_string_def digits.simps digit_char_def newline_def)
  have n: "\<not> canonical_decimal 5 ''05''" by (simp add: canonical_decimal_def)
  from message_format [OF h(1), of sys_ok 3 0] message_format [OF h(2), of sys_ok 3 0] m h n
  show ?thesis by (simp add: newline_def Let_def)
qed

subsection \<open>No write before the device is configured\<close>

text \<open>
  \<^bold>\<open>Claim C3\<close>.  In every run, each \<^verbatim>\<open>write\<close> comes after a successful \<^verbatim>\<open>open\<close>, a successful
  \<^verbatim>\<open>tcgetattr\<close> and a successful \<^verbatim>\<open>tcsetattr\<close> of the descriptor it writes to; and when a step
  of the configuration fails, the run has no \<^verbatim>\<open>write\<close> at all and exits with a status other
  than 0.
\<close>

theorem no_write_before_configured:
  "writes_guarded Unopened (fst (main sys n)) \<and>
   (\<not> config_ok sys \<longrightarrow>
      filter is_write (fst (main sys n)) = [] \<and>
      (\<exists>s. snd (main sys n) = Exited s \<and> s \<noteq> 0))"
  by (simp add: writes_guarded_main failed_run)

text \<open>
  A run in which \<^verbatim>\<open>tcsetattr\<close> fails; and a trace that the monitor rejects, a \<^verbatim>\<open>write\<close> right
  after the \<^verbatim>\<open>open\<close>.
\<close>

theorem no_write_before_configured_witness:
  "\<not> config_ok (sys_fail 3) \<and>
   writes_guarded Unopened (fst (main (sys_fail 3) 5)) \<and>
   filter is_write (fst (main (sys_fail 3) 5)) = [] \<and>
   (\<exists>s. snd (main (sys_fail 3) 5) = Exited s \<and> s \<noteq> 0) \<and>
   \<not> writes_guarded Unopened [Open port 257 3, Write 3 ''0\<newline>'' 2 2]"
proof -
  have f: "\<not> config_ok (sys_fail 3)"
    using sys_fail_config(3) by (simp add: config_ok_def)
  from no_write_before_configured [of "sys_fail 3" 5] f show ?thesis by simp
qed

subsection \<open>The committed line settings\<close>

text \<open>
  \<^bold>\<open>Claim C4\<close>.  When the configuration phase succeeds, the settings committed to the device
  report 115200 baud in both directions, 8 data bits, no parity, 1 stop bit, software and
  hardware flow control off, and canonical processing, echo and signal generation off.
\<close>

theorem committed_line_settings:
  "config_ok sys \<Longrightarrow>
     \<exists>t. committed (fst (main sys n)) = Some t \<and>
         speed_115200 t \<and> frame_8N1 t \<and> no_flow_control t \<and> raw_mode t"
  by (simp add: committed_main line_settings_configure)

text \<open>
  A successful run from a terminal in cooked mode at 9600 baud, whose own settings have none
  of the three properties shown.
\<close>

theorem committed_line_settings_witness:
  "config_ok sys_ok \<and>
   (\<exists>t. committed (fst (main sys_ok 2)) = Some t \<and>
        speed_115200 t \<and> frame_8N1 t \<and> no_flow_control t \<and> raw_mode t) \<and>
   \<not> speed_115200 cooked \<and> \<not> no_flow_control cooked \<and> \<not> raw_mode cooked"
proof -
  have ok: "config_ok sys_ok" by (rule sys_ok_config)
  have "\<not> speed_115200 cooked" "\<not> no_flow_control cooked" "\<not> raw_mode cooked"
    by (simp_all add: speed_115200_def no_flow_control_def raw_mode_def cooked_def
          cfgetispeed_def cfgetospeed_def baud_rate_def IBAUD0_def CBAUD_def CBAUDEX_def
          IXON_def IXOFF_def IXANY_def ICANON_def ECHO_def ISIG_def)
  with committed_line_settings [OF ok, of 2] ok show ?thesis by simp
qed

subsection \<open>The descriptor is closed on failure\<close>

text \<open>
  \<^bold>\<open>Claim C5\<close>.  When \<^verbatim>\<open>tcgetattr\<close> or \<^verbatim>\<open>tcsetattr\<close> fails after a successful \<^verbatim>\<open>open\<close>, the
  descriptor that was opened is closed as the last action before the process exits; and no
  run that exits leaves a descriptor open.
\<close>

theorem handle_closed_on_failure:
  "(query_fails sys \<or> apply_fails sys \<longrightarrow>
      0 \<le> opened sys \<and>
      hd (fst (main sys n)) = Open port (O_WRONLY OR O_NOCTTY) (opened sys) \<and>
      open_handles [hd (fst (main sys n))] = [opened sys] \<and>
      last (fst (main sys n)) = Close (opened sys) \<and>
      snd (main sys n) = Exited 1) \<and>
   (\<forall>s. snd (main sys n) = Exited s \<longrightarrow> open_handles (fst (main sys n)) = [])"
proof -
  have "query_fails sys \<or> apply_fails sys \<Longrightarrow> 0 \<le> opened sys" by (rule opened_nonneg)
  then show ?thesis using handles_exited [of sys n]
    by (auto simp: main_query_fails main_apply_fails open_handles_def)
qed

text \<open>
  Runs in which \<^verbatim>\<open>tcgetattr\<close> and \<^verbatim>\<open>tcsetattr\<close> fail; in a successful run, which does not
  exit, descriptor 3 stays open.
\<close>

theorem handle_closed_on_failure_witness:
  "query_fails (sys_fail 2) \<and> apply_fails (sys_fail 3) \<and>
   last (fst (main (sys_fail 2) 4)) = Close 3 \<and> last (fst (main (sys_fail 3) 4)) = Close 3 \<and>
   snd (main (sys_fail 2) 4) = Exited 1 \<and>
   open_handles (fst (main (sys_fail 2) 4)) = [] \<and> open_handles (fst (main (sys_fail 3) 4)) = [] \<and>
   open_handles (fst (main sys_ok 4)) = [3]"
proof -
  have o: "opened (sys_fail 2) = 3" "opened (sys_fail 3) = 3"
    by (simp_all add: opened_def sys_fail_def)
  have r: "open_handles (fst (main sys_ok 4)) = [3]"
    by (simp add: main_config_ok sys_ok_config open_handles_def handles_transmit)
  from handle_closed_on_failure [of "sys_fail 2" 4] handle_closed_on_failure [of "sys_fail 3" 4]
    sys_fail_config o r
  show ?thesis by simp
qed

subsection \<open>Exit statuses\<close>

text \<open>
  \<^bold>\<open>Claim C6\<close>.  No run returns status 0.  When the configuration succeeds the process is still
  in the loop after any number \<open>n\<close> of iterations, having called \<^verbatim>\<open>write\<close> \<open>n\<close> times, whatever
  the calls returned: the program has no exit from the loop, so a run can only end from
  outside.  When a step of the configuration fails, the process prints a diagnostic that
  names the step and carries the \<^verbatim>\<open>errno\<close> of the failed call, closes the descriptor if it has
  one, and returns 1, with nothing else in between.
\<close>

theorem never_exits_zero:
  "snd (main sys n) \<noteq> Exited 0 \<and>
   (config_ok sys \<longrightarrow>
      snd (main sys n) = Running \<and> length (filter is_write (fst (main sys n))) = n) \<and>
   (open_fails sys \<longrightarrow>
      main sys n = ([Open port (O_WRONLY OR O_NOCTTY) (opened sys),
                     Perror ''open'' (snd (os_open sys port (O_WRONLY OR O_NOCTTY)))],
                    Exited 1)) \<and>
   (query_fails sys \<longrightarrow>
      main sys n = ([Open port (O_WRONLY OR O_NOCTTY) (opened sys),
                     Tcgetattr (opened sys) (fst (os_tcgetattr sys (opened sys))),
                     Perror ''tcgetattr'' (fst (snd (os_tcgetattr sys (opened sys)))),
                     Close (opened sys)],
                    Exited 1)) \<and>
   (apply_fails sys \<longrightarrow>
      main sys n = ([Open port (O_WRONLY OR O_NOCTTY) (opened sys),
                     Tcgetattr (opened sys) 0,
                     Tcsetattr (opened sys) TCSANOW (configure (baseline sys))
                       (fst (os_tcsetattr sys (opened sys) TCSANOW (configure (baseline sys)))),
                     Perror ''tcsetattr''
                       (snd (os_tcsetattr sys (opened sys) TCSANOW (configure (baseline sys)))),
                     Close (opened sys)],
                    Exited 1))"
proof -
  have "snd (main sys n) \<noteq> Exited 0"
  proof (cases "config_ok sys")
    case True then show ?thesis by (simp add: main_config_ok)
  next
    case False then show ?thesis by (simp add: failed_run)
  qed
  then show ?thesis
    by (simp add: main_config_ok main_open_fails main_query_fails main_apply_fails
          filter_write_transmit)
qed

text \<open>
  Seven iterations on a system where every \<^verbatim>\<open>write\<close> returns \<open>-1\<close>, and one run for each step
  that can fail.
\<close>

theorem never_exits_zero_witness:
  "config_ok (sys_fail 4) \<and> snd (main (sys_fail 4) 7) = Running \<and>
   length (filter is_write (fst (main (sys_fail 4) 7))) = 7 \<and>
   open_fails (sys_fail 1) \<and>
   main (sys_fail 1) 7 = ([Open ''/dev/ttyUSB0'' 257 (- 1), Perror ''open'' 2], Exited 1) \<and>
   query_fails (sys_fail 2) \<and>
   main (sys_fail 2) 7 = ([Open ''/dev/ttyUSB0'' 257 3, Tcgetattr 3 (- 1), Perror ''tcgetattr'' 25,
                           Close 3], Exited 1) \<and>
   apply_fails (sys_fail 3) \<and>
   snd (main (sys_fail 3) 7) = Exited 1 \<and>
   fst (main (sys_fail 3) 7) ! 3 = Perror ''tcsetattr'' 22"
proof -
  have v: "opened (sys_fail 1) = - 1" "opened (sys_fail 2) = 3" "opened (sys_fail 3) = 3"
    "os_open (sys_fail 1) port (O_WRONLY OR O_NOCTTY) = (- 1, 2)"
    "os_tcgetattr (sys_fail 2) 3 = (- 1, 25, cooked)"
    "os_tcsetattr (sys_fail 3) 3 TCSANOW (configure (baseline (sys_fail 3))) = (- 1, 22)"
    "port = ''/dev/ttyUSB0''" "O_WRONLY OR O_NOCTTY = 257"
    by (simp_all add: opened_def sys_fail_def port_def O_WRONLY_def O_NOCTTY_def)
  from never_exits_zero [of "sys_fail 4" 7] never_exits_zero [of "sys_fail 1" 7]
    never_exits_zero [of "sys_fail 2" 7] never_exits_zero [of "sys_fail 3" 7]
    sys_fail_config v
  show ?thesis by simp
qed

subsection \<open>One iteration of the loop\<close>

text \<open>
  \<^bold>\<open>Claim C7\<close>, as amended.  Iteration \<open>i\<close> of the loop (counting from 0) starts at line 48
  with the counter at \<open>i\<close> and executes three statements in this order.  Line 48 formats the
  counter and increments it, with no event: afterwards \<^verbatim>\<open>msg\<close> decodes to the value the
  counter had before the increment (for a value that is not negative it is the numeral of
  that value), and the counter is one more.  Line 49 is exactly one \<^verbatim>\<open>write\<close> of \<^verbatim>\<open>msg\<close>, whole,
  and leaves the counter alone.  Line 50 is one sleep of 100 microseconds.  The events of
  these statements are the trace of the run after the three events of the configuration, two
  per iteration.  What \<^verbatim>\<open>write\<close> returns changes neither the messages nor the course of the
  run: there is no check and no retry.
\<close>

theorem loop_iteration:
  "config_ok sys \<Longrightarrow>
     drop 3 (fst (main sys n)) = events_after sys (opened sys) (3 * n) \<and>
     length (drop 3 (fst (main sys n))) = 2 * n \<and>
     (\<forall>i<n.
        pc (state_after sys (opened sys) (3 * i)) = Line48 \<and>
        count_var (state_after sys (opened sys) (3 * i)) = of_nat i \<and>
        events_after sys (opened sys) (3 * i + 1) = events_after sys (opened sys) (3 * i) \<and>
        count_var (state_after sys (opened sys) (3 * i + 1)) = of_nat i + 1 \<and>
        decode (msg_var (state_after sys (opened sys) (3 * i + 1))) =
          Some (sint (of_nat i :: 32 word)) \<and>
        (0 \<le> sint (of_nat i :: 32 word) \<longrightarrow>
           canonical_decimal (nat (sint (of_nat i :: 32 word)))
             (butlast (msg_var (state_after sys (opened sys) (3 * i + 1))))) \<and>
        events_after sys (opened sys) (3 * i + 2) =
          events_after sys (opened sys) (3 * i + 1) @
            [Write (opened sys) (msg_var (state_after sys (opened sys) (3 * i + 1)))
               (length (msg_var (state_after sys (opened sys) (3 * i + 1))))
               (os_write sys i (opened sys) (msg_var (state_after sys (opened sys) (3 * i + 1)))
                  (length (msg_var (state_after sys (opened sys) (3 * i + 1)))))] \<and>
        count_var (state_after sys (opened sys) (3 * i + 2)) = of_nat i + 1 \<and>
        events_after sys (opened sys) (3 * i + 3) =
          events_after sys (opened sys) (3 * i + 2) @ [Sleep_for 100] \<and>
        count_var (state_after sys (opened sys) (3 * i + 3)) = of_nat i + 1 \<and>
        decode (sent (fst (main sys n)) ! i) = Some (sint (of_nat i :: 32 word)) \<and>
        drop 3 (fst (main sys n)) ! (2 * i + 1) = Sleep_for 100) \<and>
     sent (fst (main (sys\<lparr>os_write := w\<rparr>) n)) = sent (fst (main sys n)) \<and>
     snd (main (sys\<lparr>os_write := w\<rparr>) n) = snd (main sys n)"
proof -
  assume ok: "config_ok sys"
  then have ok': "config_ok (sys\<lparr>os_write := w\<rparr>)" by (simp add: config_ok_write_irrelevant)
  have a: "drop 3 (fst (main sys n)) = events_after sys (opened sys) (3 * n)"
    by (simp add: main_config_ok [OF ok] at_iteration)
  have b: "length (drop 3 (fst (main sys n))) = 2 * n"
    by (simp add: main_config_ok [OF ok] length_transmit)
  have c: "sent (fst (main (sys\<lparr>os_write := w\<rparr>) n)) = sent (fst (main sys n))"
    "snd (main (sys\<lparr>os_write := w\<rparr>) n) = snd (main sys n)"
    by (simp_all add: main_config_ok [OF ok] main_config_ok [OF ok'] sent_transmit)
  have d: "decode (sent (fst (main sys n)) ! i) = Some (sint (of_nat i :: 32 word))"
    if "i < n" for i
    using that by (simp add: nth_sent_main [OF ok] decode_message)
  have d': "drop 3 (fst (main sys n)) ! (2 * i + 1) = Sleep_for 100" if "i < n" for i
    using that nth_transmit(2) [of i n sys "opened sys" 0 0]
    by (simp add: main_config_ok [OF ok] interval_def)
  have e: "0 \<le> sint (of_nat i :: 32 word) \<longrightarrow>
           canonical_decimal (nat (sint (of_nat i :: 32 word))) (butlast (message (of_nat i)))"
    for i
    by (simp add: canonical_butlast_message)
  have f: "pc (state_after sys (opened sys) (3 * i)) = Line48 \<and>
        count_var (state_after sys (opened sys) (3 * i)) = of_nat i \<and>
        events_after sys (opened sys) (3 * i + 1) = events_after sys (opened sys) (3 * i) \<and>
        count_var (state_after sys (opened sys) (3 * i + 1)) = of_nat i + 1 \<and>
        decode (msg_var (state_after sys (opened sys) (3 * i + 1))) =
          Some (sint (of_nat i :: 32 word)) \<and>
        (0 \<le> sint (of_nat i :: 32 word) \<longrightarrow>
           canonical_decimal (nat (sint (of_nat i :: 32 word)))
             (butlast (msg_var (state_after sys (opened sys) (3 * i + 1))))) \<and>
        events_after sys (opened sys) (3 * i + 2) =
          events_after sys (opened sys) (3 * i + 1) @
            [Write (opened sys) (msg_var (state_after sys (opened sys) (3 * i + 1)))
               (length (msg_var (state_after sys (opened sys) (3 * i + 1))))
               (os_write sys i (opened sys) (msg_var (state_after sys (opened sys) (3 * i + 1)))
                  (length (msg_var (state_after sys (opened sys) (3 * i + 1)))))] \<and>
        count_var (state_after sys (opened sys) (3 * i + 2)) = of_nat i + 1 \<and>
        events_after sys (opened sys) (3 * i + 3) =
          events_after sys (opened sys) (3 * i + 2) @ [Sleep_for 100] \<and>
        count_var (state_after sys (opened sys) (3 * i + 3)) = of_nat i + 1 \<and>
        decode (sent (fst (main sys n)) ! i) = Some (sint (of_nat i :: 32 word)) \<and>
        drop 3 (fst (main sys n)) ! (2 * i + 1) = Sleep_for 100" if i: "i < n" for i
  proof -
    note st = iteration_steps [of sys "opened sys" i, unfolded interval_def]
    note at = at_iteration [of sys "opened sys" i]
    from e [of i] show ?thesis
      by (simp only: st at decode_message d [OF i] d' [OF i] simp_thms)
  qed
  from a b c f show ?thesis by blast
qed

text \<open>
  The second iteration of a run of two; the second system fails every \<^verbatim>\<open>write\<close>.
\<close>

theorem loop_iteration_witness:
  "config_ok sys_ok \<and>
   count_var (state_after sys_ok 3 3) = 1 \<and>
   count_var (state_after sys_ok 3 4) = 2 \<and>
   decode (msg_var (state_after sys_ok 3 4)) = Some 1 \<and>
   canonical_decimal 1 (butlast (msg_var (state_after sys_ok 3 4))) \<and>
   events_after sys_ok 3 5 =
     events_after sys_ok 3 4 @
       [Write 3 (msg_var (state_after sys_ok 3 4)) (length (msg_var (state_after sys_ok 3 4)))
          (os_write sys_ok 1 3 (msg_var (state_after sys_ok 3 4))
             (length (msg_var (state_after sys_ok 3 4))))] \<and>
   events_after sys_ok 3 6 = events_after sys_ok 3 5 @ [Sleep_for 100] \<and>
   drop 3 (fst (main sys_ok 2)) = events_after sys_ok 3 6 \<and>
   decode (sent (fst (main sys_ok 2)) ! 1) = Some 1 \<and>
   sent (fst (main (sys_ok\<lparr>os_write := (\<lambda>k fd buf len. - 1)\<rparr>) 2)) = sent (fst (main sys_ok 2)) \<and>
   snd (main (sys_ok\<lparr>os_write := (\<lambda>k fd buf len. - 1)\<rparr>) 2) = Running"
proof -
  have ok: "config_ok sys_ok" by (rule sys_ok_config)
  note t = loop_iteration [OF ok, of 2 "\<lambda>k fd buf len. - 1", unfolded sys_ok_config(2)]
  from t have q: "\<forall>i<2.
        pc (state_after sys_ok 3 (3 * i)) = Line48 \<and>
        count_var (state_after sys_ok 3 (3 * i)) = of_nat i \<and>
        events_after sys_ok 3 (3 * i + 1) = events_after sys_ok 3 (3 * i) \<and>
        count_var (state_after sys_ok 3 (3 * i + 1)) = of_nat i + 1 \<and>
        decode (msg_var (state_after sys_ok 3 (3 * i + 1))) =
          Some (sint (of_nat i :: 32 word)) \<and>
        (0 \<le> sint (of_nat i :: 32 word) \<longrightarrow>
           canonical_decimal (nat (sint (of_nat i :: 32 word)))
             (butlast (msg_var (state_after sys_ok 3 (3 * i + 1))))) \<and>
        events_after sys_ok 3 (3 * i + 2) =
          events_after sys_ok 3 (3 * i + 1) @
            [Write 3 (msg_var (state_after sys_ok 3 (3 * i + 1)))
               (length (msg_var (state_after sys_ok 3 (3 * i + 1))))
               (os_write sys_ok i 3 (msg_var (state_after sys_ok 3 (3 * i + 1)))
                  (length (msg_var (state_after sys_ok 3 (3 * i + 1)))))] \<and>
        count_var (state_after sys_ok 3 (3 * i + 2)) = of_nat i + 1 \<and>
        events_after sys_ok 3 (3 * i + 3) =
          events_after sys_ok 3 (3 * i + 2) @ [Sleep_for 100] \<and>
        count_var (state_after sys_ok 3 (3 * i + 3)) = of_nat i + 1 \<and>
        decode (sent (fst (main sys_ok 2)) ! i) = Some (sint (of_nat i :: 32 word)) \<and>
        drop 3 (fst (main sys_ok 2)) ! (2 * i + 1) = Sleep_for 100"
    and a: "drop 3 (fst (main sys_ok 2)) = events_after sys_ok 3 (3 * 2)"
    and s: "sent (fst (main (sys_ok\<lparr>os_write := (\<lambda>k fd buf len. - 1)\<rparr>) 2))
      = sent (fst (main sys_ok 2))"
    and r: "snd (main (sys_ok\<lparr>os_write := (\<lambda>k fd buf len. - 1)\<rparr>) 2) = snd (main sys_ok 2)"
    by blast+
  from r have r': "snd (main (sys_ok\<lparr>os_write := (\<lambda>k fd buf len. - 1)\<rparr>) 2) = Running"
    by (simp add: main_config_ok [OF ok])
  from q [THEN spec, of 1] a s r' ok show ?thesis by simp
qed

text \<open>
  The claim as it was stated puts the increment after the \<^verbatim>\<open>write\<close>.  In the first iteration,
  when line 49 is about to write \<^verbatim>\<open>"0\n"\<close> the counter is already 1, and the \<^verbatim>\<open>write\<close> does not
  change it.
\<close>

theorem increment_precedes_write_counterexample:
  "events_after sys_ok 3 1 = [] \<and>
   pc (state_after sys_ok 3 1) = Line49 \<and>
   msg_var (state_after sys_ok 3 1) = ''0\<newline>'' \<and>
   count_var (state_after sys_ok 3 1) = 1 \<and>
   events_after sys_ok 3 2 = [Write 3 ''0\<newline>'' 2 2] \<and>
   count_var (state_after sys_ok 3 2) = 1"
  by (simp add: events_after_def state_after_def numeral_2_eq_2 exec_def loop_entry_def
        sys_ok_def to_string_def digits.simps digit_char_def newline_def)

subsection \<open>Minimum bytes and timeout of a read\<close>

text \<open>
  \<^bold>\<open>Claim C8\<close>.  The settings that the program applies have \<open>c_cc[VMIN] = 0\<close> and
  \<open>c_cc[VTIME] = 5\<close>, a read timeout of five tenths of a second.
\<close>

theorem vmin_vtime_applied:
  "\<not> open_fails sys \<Longrightarrow> \<not> query_fails sys \<Longrightarrow> wf_termios (baseline sys) \<Longrightarrow>
     \<exists>t. applied (fst (main sys n)) = Some t \<and>
         c_cc t ! VMIN = 0 \<and> c_cc t ! VTIME = 5 \<and> read_timeout_ms t = 500"
  by (simp add: applied_main configure_fields read_timeout_ms_def wf_termios_def
        NCCS_def VMIN_def VTIME_def)

text \<open>From a baseline with \<open>VMIN = 1\<close> and \<open>VTIME = 0\<close>.\<close>

theorem vmin_vtime_applied_witness:
  "\<not> open_fails sys_ok \<and> \<not> query_fails sys_ok \<and> wf_termios (baseline sys_ok) \<and>
   c_cc (baseline sys_ok) ! VMIN = 1 \<and> c_cc (baseline sys_ok) ! VTIME = 0 \<and>
   (\<exists>t. applied (fst (main sys_ok 1)) = Some t \<and>
        c_cc t ! VMIN = 0 \<and> c_cc t ! VTIME = 5 \<and> read_timeout_ms t = 500)"
proof -
  have h: "\<not> open_fails sys_ok" "\<not> query_fails sys_ok"
    using sys_ok_config(1) by (simp_all add: config_ok_def)
  have w: "wf_termios (baseline sys_ok)"
    by (simp add: sys_ok_config wf_termios_def cooked_def NCCS_def)
  have "c_cc (baseline sys_ok) ! VMIN = 1" "c_cc (baseline sys_ok) ! VTIME = 0"
    by (simp_all add: sys_ok_config cooked_def VMIN_def VTIME_def)
  with vmin_vtime_applied [OF h w, of 1] h w show ?thesis by simp
qed

subsection \<open>What the configuration leaves alone\<close>

text \<open>
  \<^bold>\<open>Claim C9\<close>, as amended.  The settings that the program applies differ from the baseline as
  follows.  In \<open>c_cflag\<close>, only the baud rate bits \<open>CBAUD\<close>, which the two speed calls set to
  \<open>B115200\<close>, and the bits named by \<open>CSIZE\<close>, \<open>CLOCAL\<close>, \<open>CREAD\<close>, \<open>PARENB\<close>, \<open>PARODD\<close>,
  \<open>CSTOPB\<close> and \<open>CRTSCTS\<close> can change.  \<open>c_iflag\<close> is the baseline with \<open>IGNBRK\<close>, \<open>IXON\<close>,
  \<open>IXOFF\<close> and \<open>IXANY\<close> cleared, and with the marker bit \<open>IBAUD0\<close> that \<^verbatim>\<open>cfsetispeed\<close>
  clears.  The control characters other than \<open>VMIN\<close> and \<open>VTIME\<close>, and \<open>c_line\<close>, keep their
  baseline values.  \<open>c_lflag\<close> and \<open>c_oflag\<close> are 0 whatever the baseline held.
\<close>

theorem configure_frame:
  "\<not> open_fails sys \<Longrightarrow> \<not> query_fails sys \<Longrightarrow>
     \<exists>t. applied (fst (main sys n)) = Some t \<and>
         c_cflag t AND NOT (CBAUD OR cflag_named) =
           c_cflag (baseline sys) AND NOT (CBAUD OR cflag_named) \<and>
         c_cflag t AND CBAUD = B115200 \<and>
         c_iflag t = c_iflag (baseline sys) AND NOT (IBAUD0 OR iflag_named) \<and>
         (\<forall>i. i \<noteq> VMIN \<and> i \<noteq> VTIME \<longrightarrow> c_cc t ! i = c_cc (baseline sys) ! i) \<and>
         c_line t = c_line (baseline sys) \<and>
         c_lflag t = 0 \<and> c_oflag t = 0"
proof -
  have "c_cflag (configure (baseline sys)) AND CBAUD = B115200"
    by (rule bit_word_eqI) (auto simp: bit_simps bit_consts bit_c_cflag_configure)
  moreover assume "\<not> open_fails sys" "\<not> query_fails sys"
  ultimately show ?thesis
    using cflag_frame_full [of "baseline sys"] iflag_frame_full [of "baseline sys"]
    by (simp add: applied_main configure_fields(3-6))
qed

text \<open>From the cooked terminal: \<open>HUPCL\<close> (1024) survives, the local and output modes do not.\<close>

theorem configure_frame_witness:
  "\<not> open_fails sys_ok \<and> \<not> query_fails sys_ok \<and>
   (\<exists>t. applied (fst (main sys_ok 1)) = Some t \<and>
        c_cflag t AND NOT (CBAUD OR cflag_named) = 1024 \<and>
        c_cflag (baseline sys_ok) AND NOT (CBAUD OR cflag_named) = 1024 \<and>
        c_iflag t = 256 \<and> c_iflag (baseline sys_ok) = 1280 \<and>
        c_cc t ! 0 = c_cc (baseline sys_ok) ! 0 \<and>
        c_lflag t = 0 \<and> c_lflag (baseline sys_ok) = 35387 \<and>
        c_oflag t = 0 \<and> c_oflag (baseline sys_ok) = 5)"
proof -
  have h: "\<not> open_fails sys_ok" "\<not> query_fails sys_ok"
    using sys_ok_config(1) by (simp_all add: config_ok_def)
  have b: "c_cflag (baseline sys_ok) AND NOT (CBAUD OR cflag_named) = 1024"
    "c_iflag (baseline sys_ok) AND NOT (IBAUD0 OR iflag_named) = 256"
    "c_iflag (baseline sys_ok) = 1280" "c_lflag (baseline sys_ok) = 35387"
    "c_oflag (baseline sys_ok) = 5"
    by (simp_all add: sys_ok_config cooked_def cflag_named_def iflag_named_def IGNBRK_def IXON_def IXANY_def IXOFF_def IBAUD0_def CBAUD_def CBAUDEX_def CSIZE_def CS8_def CSTOPB_def CREAD_def PARENB_def PARODD_def CLOCAL_def CRTSCTS_def B115200_def)
  from configure_frame [OF h, of 1] obtain t where
    t: "applied (fst (main sys_ok 1)) = Some t"
      "c_cflag t AND NOT (CBAUD OR cflag_named) =
         c_cflag (baseline sys_ok) AND NOT (CBAUD OR cflag_named)"
      "c_iflag t = c_iflag (baseline sys_ok) AND NOT (IBAUD0 OR iflag_named)"
      "\<forall>i. i \<noteq> VMIN \<and> i \<noteq> VTIME \<longrightarrow> c_cc t ! i = c_cc (baseline sys_ok) ! i"
      "c_lflag t = 0" "c_oflag t = 0"
    by blast
  from t(4) have "c_cc t ! 0 = c_cc (baseline sys_ok) ! 0"
    by (simp add: VMIN_def VTIME_def)
  with t h b show ?thesis by simp
qed

text \<open>
  The claim as it was stated lists the bits of \<open>c_cflag\<close> that change without the baud rate.
  From a baseline at 9600 baud, the bits outside the list go from 1037 (\<open>B9600\<close> and \<open>HUPCL\<close>)
  to 5122 (\<open>B115200\<close> and \<open>HUPCL\<close>).
\<close>

theorem cflag_frame_counterexample:
  "applied (fst (main sys_ok 0)) = Some (configure cooked) \<and>
   baseline sys_ok = cooked \<and>
   c_cflag cooked = 1213 \<and>
   c_cflag (configure cooked) = 7346 \<and>
   c_cflag cooked AND NOT cflag_named = 1037 \<and>
   c_cflag (configure cooked) AND NOT cflag_named = 5122 \<and>
   c_cflag (configure cooked) AND NOT cflag_named \<noteq> c_cflag cooked AND NOT cflag_named"
proof -
  have h: "\<not> open_fails sys_ok" "\<not> query_fails sys_ok"
    using sys_ok_config(1) by (simp_all add: config_ok_def)
  have c: "c_cflag (configure cooked) = 7346"
    by (simp add: configure_fields cooked_def CBAUD_def CBAUDEX_def B115200_def CSIZE_def
          CS8_def CLOCAL_def CREAD_def PARENB_def PARODD_def CSTOPB_def CRTSCTS_def)
  have b: "c_cflag cooked = 1213" by (simp add: cooked_def)
  have n: "(7346 :: tcflag_t) AND NOT cflag_named = 5122"
    "(1213 :: tcflag_t) AND NOT cflag_named = 1037"
    by (simp_all add: cflag_named_def CSIZE_def CLOCAL_def CREAD_def PARENB_def PARODD_def
          CSTOPB_def CRTSCTS_def)
  show ?thesis
    by (simp add: applied_main [OF h] sys_ok_config c b n)
qed

subsection \<open>The counter wraps\<close>



end
